theory Spec2Isabelle
  imports Complex_Main "HOL-Library.Word" "HOL-Library.Sublist" "HOL-Library.Multiset"
    "HOL-Library.Log_Nat"
begin

section \<open>Data model\<close>

text \<open>
  The detection pipeline of the repository lives in three JavaScript classes:
  \<^item> \<open>AnimalDetectionService\<close> (the model-based service: post-processing, NMS, IoU),
  \<^item> \<open>RealAnimalDetectionService\<close> (the heuristic service: motion, shape, colour, texture),
  \<^item> \<open>SimpleRealDetection\<close> (the service wired to the HTTP routes: cooldown, five
    candidate URLs).

  The numbers of the random boxes, the scores and the confidences are modelled as
  \<^typ>\<open>real\<close>, with a NaN written out as \<open>None\<close> where the source can divide zero by
  zero.  \<open>calculateIoU\<close> and the suppression test of \<open>applyNMS\<close> compute in IEEE 754
  binary64 as the language does, with rounding to nearest, infinities and NaN (section
  ``Numbers in binary64'').  Clock readings
  (\<open>Date.now()\<close>) and timer delays are \<^typ>\<open>int\<close> milliseconds.  A value drawn by
  \<open>Math.random()\<close> is an argument of the function that draws it.
\<close>

datatype js_error = Error string

type_synonym byte = "8 word"

record bbox =
  box_x :: real
  box_y :: real
  box_width :: real
  box_height :: real

record detection =
  cls :: string
  confidence :: real
  bbox :: bbox
  timestamp :: int

text \<open>The invariant the data model asks of a bounding box.\<close>

definition bbox_ok :: "bbox \<Rightarrow> bool" where
  "bbox_ok b \<longleftrightarrow>
     0 \<le> box_x b \<and> 0 \<le> box_y b \<and> box_x b + box_width b \<le> 1 \<and> box_y b + box_height b \<le> 1"

section \<open>Numbers in binary64\<close>

text \<open>
  A number of the language is a finite double, an infinity or NaN.  A finite double is
  kept as the real it denotes; the sign of a zero is not kept.
\<close>

datatype jsnum = Fin real | PosInf | NegInf | NaN

text \<open>
  The exponent of the binade of a real other than 0: the \<open>e\<close> with
  \<open>2^e \<le> |x| < 2^(e+1)\<close>, and \<open>-1022\<close> for the subnormal range below.
\<close>

definition expo :: "real \<Rightarrow> int" where
  "expo x = (if \<bar>x\<bar> \<ge> 1 then bitlen \<lfloor>\<bar>x\<bar>\<rfloor> - 1
             else max (- 1022) (- bitlen (\<lceil>1 / \<bar>x\<bar>\<rceil> - 1)))"

text \<open>Rounding to the nearest integer, ties to the even one.\<close>

definition rne :: "real \<Rightarrow> int" where
  "rne y = (let f = \<lfloor>y\<rfloor>; r = y - of_int f
            in if r < 1 / 2 then f else if r > 1 / 2 then f + 1
               else if even f then f else f + 1)"

text \<open>Rounding to 53 significant bits (fewer in the subnormal range), the exponent not
  bounded above.\<close>

definition fl :: "real \<Rightarrow> real" where
  "fl x = (if x = 0 then 0
           else (let u = 2 powi (expo x - 52) in u * of_int (rne (x / u))))"

text \<open>
  The double of a real, as for the exact result of an operation or for a decimal literal:
  the rounded value, or an infinity when that has left the range (it is then at least
  \<open>2^1024\<close> in size).
\<close>

definition to_double :: "real \<Rightarrow> jsnum" where
  "to_double x = (let y = fl x
            in if y \<noteq> 0 \<and> expo y \<ge> 1024 then (if x > 0 then PosInf else NegInf)
               else Fin y)"

fun jneg :: "jsnum \<Rightarrow> jsnum" where
  "jneg (Fin a) = Fin (- a)"
| "jneg PosInf = NegInf"
| "jneg NegInf = PosInf"
| "jneg NaN = NaN"

fun jadd :: "jsnum \<Rightarrow> jsnum \<Rightarrow> jsnum" where
  "jadd (Fin a) (Fin b) = to_double (a + b)"
| "jadd NaN b = NaN"
| "jadd a NaN = NaN"
| "jadd PosInf NegInf = NaN"
| "jadd NegInf PosInf = NaN"
| "jadd PosInf b = PosInf"
| "jadd a PosInf = PosInf"
| "jadd NegInf b = NegInf"
| "jadd a NegInf = NegInf"

definition jsub :: "jsnum \<Rightarrow> jsnum \<Rightarrow> jsnum" where
  "jsub a b = jadd a (jneg b)"

fun jmul :: "jsnum \<Rightarrow> jsnum \<Rightarrow> jsnum" where
  "jmul (Fin a) (Fin b) = to_double (a * b)"
| "jmul NaN b = NaN"
| "jmul a NaN = NaN"
| "jmul (Fin a) b = (if a = 0 then NaN else if a > 0 then b else jneg b)"
| "jmul a (Fin b) = (if b = 0 then NaN else if b > 0 then a else jneg a)"
| "jmul PosInf b = b"
| "jmul NegInf b = jneg b"

text \<open>A zero divisor is taken as \<open>+0\<close>; the divisor of \<open>calculateIoU\<close>, when it is zero, is
  the difference of two equal numbers or of two zeros that are \<open>+0\<close>, hence \<open>+0\<close>.\<close>

fun jdiv :: "jsnum \<Rightarrow> jsnum \<Rightarrow> jsnum" where
  "jdiv (Fin a) (Fin b) =
     (if b = 0 then (if a = 0 then NaN else if a > 0 then PosInf else NegInf)
      else to_double (a / b))"
| "jdiv NaN b = NaN"
| "jdiv a NaN = NaN"
| "jdiv (Fin a) b = Fin 0"
| "jdiv a (Fin b) = (if b \<ge> 0 then a else jneg a)"
| "jdiv a b = NaN"

text \<open>\<open><=\<close> and \<open>>\<close> are false when an operand is NaN; \<open>Math.max\<close> and \<open>Math.min\<close> are
  NaN then.\<close>

fun jle :: "jsnum \<Rightarrow> jsnum \<Rightarrow> bool" where
  "jle NaN b = False"
| "jle a NaN = False"
| "jle NegInf b = True"
| "jle a PosInf = True"
| "jle (Fin a) (Fin b) = (a \<le> b)"
| "jle a b = False"

definition jgt :: "jsnum \<Rightarrow> jsnum \<Rightarrow> bool" where
  "jgt a b = (jle b a \<and> a \<noteq> b)"

definition jmax :: "jsnum \<Rightarrow> jsnum \<Rightarrow> jsnum" where
  "jmax a b = (if a = NaN \<or> b = NaN then NaN else if jle a b then b else a)"

definition jmin :: "jsnum \<Rightarrow> jsnum \<Rightarrow> jsnum" where
  "jmin a b = (if a = NaN \<or> b = NaN then NaN else if jle a b then a else b)"

section \<open>Intersection over union (\<open>calculateIoU\<close>)\<close>

text \<open>The fields of a box are read as the doubles nearest to them (\<open>to_double\<close>), and every
  operation rounds.\<close>

definition calculateIoU :: "bbox \<Rightarrow> bbox \<Rightarrow> jsnum" where
  "calculateIoU box1 box2 =
     (let x1 = jmax (to_double (box_x box1)) (to_double (box_x box2));
          y1 = jmax (to_double (box_y box1)) (to_double (box_y box2));
          x2 = jmin (jadd (to_double (box_x box1)) (to_double (box_width box1)))
                    (jadd (to_double (box_x box2)) (to_double (box_width box2)));
          y2 = jmin (jadd (to_double (box_y box1)) (to_double (box_height box1)))
                    (jadd (to_double (box_y box2)) (to_double (box_height box2)))
      in if jle x2 x1 \<or> jle y2 y1 then Fin 0
         else (let intersection = jmul (jsub x2 x1) (jsub y2 y1);
                   union_area =
                     jsub (jadd (jmul (to_double (box_width box1)) (to_double (box_height box1)))
                                (jmul (to_double (box_width box2)) (to_double (box_height box2))))
                          intersection
               in jdiv intersection union_area))"

section \<open>Non-maximum suppression (\<open>applyNMS\<close>)\<close>

text \<open>
  \<open>detections.sort((a, b) => b.confidence - a.confidence)\<close>: the array sort of the
  language is stable, so it is the stable insertion sort on the negated confidence.
\<close>

definition sort_by_confidence :: "detection list \<Rightarrow> detection list" where
  "sort_by_confidence ds = sort_key (\<lambda>d. - confidence d) ds"

text \<open>
  The inner loop \<open>for (j = i + 1; j < n; j++)\<close>: the set of suppressed indices after
  it has run from \<open>j\<close>.  The threshold is the double nearest to \<open>thr\<close>.
\<close>

function suppress_from :: "real \<Rightarrow> detection list \<Rightarrow> nat \<Rightarrow> nat \<Rightarrow> nat set \<Rightarrow> nat set" where
  "suppress_from thr ds i j suppressed =
     (if j < length ds then
        (if j \<in> suppressed then suppress_from thr ds i (j + 1) suppressed
         else if jgt (calculateIoU (bbox (ds ! i)) (bbox (ds ! j))) (to_double thr)
              then suppress_from thr ds i (j + 1) (insert j suppressed)
              else suppress_from thr ds i (j + 1) suppressed)
      else suppressed)"
  by pat_completeness auto
termination
  by (relation "measure (\<lambda>(thr, ds, i, j, suppressed). length ds - j)") auto

text \<open>The outer loop \<open>for (i = 0; i < n; i++)\<close>, with \<open>keep\<close> and \<open>suppressed\<close>.\<close>

function nms_loop :: "real \<Rightarrow> detection list \<Rightarrow> nat \<Rightarrow> nat set \<Rightarrow> detection list \<Rightarrow> detection list" where
  "nms_loop thr ds i suppressed keep =
     (if i < length ds then
        (if i \<in> suppressed then nms_loop thr ds (i + 1) suppressed keep
         else nms_loop thr ds (i + 1) (suppress_from thr ds i (i + 1) suppressed) (keep @ [ds ! i]))
      else keep)"
  by pat_completeness auto
termination
  by (relation "measure (\<lambda>(thr, ds, i, suppressed, keep). length ds - i)") auto

definition applyNMS :: "real \<Rightarrow> detection list \<Rightarrow> detection list" where
  "applyNMS thr detections =
     (if length detections \<le> 1 then detections
      else nms_loop thr (sort_by_confidence detections) 0 {} [])"

text \<open>
  The same suppression written on lists: keep the head, drop from the tail everything
  that overlaps it by more than the threshold, go on with what is left.
\<close>

function nms_list :: "real \<Rightarrow> detection list \<Rightarrow> detection list" where
  "nms_list thr [] = []"
| "nms_list thr (d # ds) =
     d # nms_list thr (filter (\<lambda>e. \<not> jgt (calculateIoU (bbox d) (bbox e)) (to_double thr)) ds)"
  by pat_completeness auto
termination
  by (relation "measure (\<lambda>(thr, ds). length ds)") (auto simp: less_Suc_eq_le)

section \<open>Model post-processing (\<open>AnimalDetectionService.postprocessResults\<close>)\<close>

text \<open>
  What a callback can throw, told apart by what reading \<open>error.message\<close> does in the
  handler: an \<open>Error\<close> (or other object) with a message, a value without one (\<open>throw 42\<close>;
  the message reads \<open>undefined\<close>), and \<open>null\<close> or \<open>undefined\<close>, on which reading a
  property throws a \<open>TypeError\<close>.
\<close>

datatype thrown = ErrorObject string | NoMessage | NullValue | UndefinedValue

fun read_message :: "thrown \<Rightarrow> js_error + string" where
  "read_message (ErrorObject m) = Inr m"
| "read_message NoMessage = Inr ''undefined''"
| "read_message NullValue =
     Inl (Error ''TypeError: Cannot read properties of null (reading message)'')"
| "read_message UndefinedValue =
     Inl (Error ''TypeError: Cannot read properties of undefined (reading message)'')"

text \<open>The fields the three service classes share.  A callback either returns or throws.
  \<open>intervalId\<close> is the handle of the polling timer; the model keeps in it the delay the
  timer runs with, which is what decides when it fires.\<close>

type_synonym callback = "detection list \<Rightarrow> thrown + unit"

record service =
  isRunning :: bool
  intervalId :: "int option"
  cameraUrl :: string
  detectionInterval :: int
  detectionCallbacks :: "callback list"

text \<open>\<open>AnimalDetectionService\<close>: \<open>model\<close> says whether an inference session is loaded.\<close>

record animal_service = service +
  model :: bool
  inputSize :: real
  confidenceThreshold :: real
  nmsThreshold :: real

definition classNames :: "string list" where
  "classNames =
     [''person'', ''bicycle'', ''car'', ''motorcycle'', ''airplane'', ''bus'', ''train'', ''truck'',
      ''boat'', ''traffic light'', ''fire hydrant'', ''stop sign'', ''parking meter'', ''bench'',
      ''bird'', ''cat'', ''dog'', ''horse'', ''sheep'', ''cow'', ''elephant'', ''bear'', ''zebra'',
      ''giraffe'', ''backpack'', ''umbrella'', ''handbag'', ''tie'', ''suitcase'', ''frisbee'',
      ''skis'', ''snowboard'', ''sports ball'', ''kite'', ''baseball bat'', ''baseball glove'',
      ''skateboard'', ''surfboard'', ''tennis racket'', ''bottle'', ''wine glass'', ''cup'',
      ''fork'', ''knife'', ''spoon'', ''bowl'', ''banana'', ''apple'', ''sandwich'', ''orange'',
      ''broccoli'', ''carrot'', ''hot dog'', ''pizza'', ''donut'', ''cake'', ''chair'', ''couch'',
      ''potted plant'', ''bed'', ''dining table'', ''toilet'', ''tv'', ''laptop'', ''mouse'',
      ''remote'', ''keyboard'', ''cell phone'', ''microwave'', ''oven'', ''toaster'', ''sink'',
      ''refrigerator'', ''book'', ''clock'', ''vase'', ''scissors'', ''teddy bear'',
      ''hair drier'', ''toothbrush'']"

definition animalClasses :: "int list" where
  "animalClasses = [20, 15, 16, 17, 18, 19, 21, 22, 23]"

text \<open>\<open>data[k]\<close>: reading past the end of the array gives \<open>undefined\<close>.\<close>

definition elem_at :: "'a list \<Rightarrow> nat \<Rightarrow> 'a option" where
  "elem_at xs k = (if k < length xs then Some (xs ! k) else None)"

text \<open>
  The loop over the 80 class scores of one anchor.  A score that is \<open>undefined\<close> is
  never greater than the running maximum.
\<close>

definition max_class :: "real list \<Rightarrow> nat \<Rightarrow> real \<times> int" where
  "max_class output_data offset =
     fold (\<lambda>j (maxClassScore, maxClassIndex).
             case elem_at output_data (offset + 5 + j) of
               Some classScore \<Rightarrow>
                 if classScore > maxClassScore then (classScore, int j)
                 else (maxClassScore, maxClassIndex)
             | None \<Rightarrow> (maxClassScore, maxClassIndex))
          [0..<80] (0, - 1)"

text \<open>
  One pass of the anchor loop: the detections it pushes (none or one).  When the
  objectness \<open>data[offset + 4]\<close> is \<open>undefined\<close> the comparison with the threshold is
  false, the product with the class score is NaN and nothing is pushed.
\<close>

definition decode_anchor :: "animal_service \<Rightarrow> int \<Rightarrow> real list \<Rightarrow> nat \<Rightarrow> detection list" where
  "decode_anchor s stamp output_data i =
     (let offset = i * 85 in
      case elem_at output_data (offset + 4) of
        None \<Rightarrow> []
      | Some conf \<Rightarrow>
          (let x = output_data ! offset;
               y = output_data ! (offset + 1);
               w = output_data ! (offset + 2);
               h = output_data ! (offset + 3)
           in if conf < confidenceThreshold s then []
              else (let (maxClassScore, maxClassIndex) = max_class output_data offset;
                        totalConfidence = conf * maxClassScore
                    in if totalConfidence \<ge> confidenceThreshold s \<and> maxClassIndex \<in> set animalClasses
                       then (let x1 = (x - w / 2) / inputSize s;
                                 y1 = (y - h / 2) / inputSize s;
                                 width = w / inputSize s;
                                 height = h / inputSize s;
                                 normalizedX = max 0 (min 1 x1);
                                 normalizedY = max 0 (min 1 y1);
                                 normalizedW = max 0 (min (1 - normalizedX) width);
                                 normalizedH = max 0 (min (1 - normalizedY) height)
                             in [\<lparr>cls = classNames ! nat maxClassIndex,
                                  confidence = totalConfidence,
                                  bbox = \<lparr>box_x = normalizedX, box_y = normalizedY,
                                           box_width = normalizedW, box_height = normalizedH\<rparr>,
                                  timestamp = stamp\<rparr>])
                       else [])))"

text \<open>
  \<open>postprocessResults\<close>: \<open>None\<close> is a result without output data.  The loop runs while
  \<open>i < data.length / 85\<close>, a division of numbers, so a last incomplete record is visited too.
\<close>

definition postprocessResults :: "animal_service \<Rightarrow> int \<Rightarrow> real list option \<Rightarrow> detection list" where
  "postprocessResults s stamp output =
     (case output of
        None \<Rightarrow> []
      | Some output_data \<Rightarrow>
          applyNMS (nmsThreshold s)
            (concat (map (decode_anchor s stamp output_data)
                         [0..<nat \<lceil>real (length output_data) / 85\<rceil>])))"

section \<open>Notification (\<open>notifyDetections\<close>, the same in the three classes)\<close>

text \<open>
  \<open>forEach\<close> with steps that can throw: each step leaves a record of what it did, and a
  step that throws ends the iteration with the error; what was done before stays done.
\<close>

fun forEach :: "(nat \<Rightarrow> 'a \<Rightarrow> 'b \<times> js_error option) \<Rightarrow> nat \<Rightarrow> 'a list \<Rightarrow> 'b list \<times> js_error option" where
  "forEach f i [] = ([], None)"
| "forEach f i (x # xs) =
     (case f i x of
        (y, Some e) \<Rightarrow> ([y], Some e)
      | (y, None) \<Rightarrow> (let (ys, r) = forEach f (i + 1) xs in (y # ys, r)))"

text \<open>A delivery: the index of the callback, the argument it got, and how it ended.\<close>

type_synonym call = "nat \<times> detection list \<times> (thrown + unit)"

text \<open>
  The body of the iteration,
  \<open>try { callback(detections) } catch (error) { console.error(..., error.message) }\<close>:
  the delivery, and the error of the handler when reading the message throws.
\<close>

definition try_callback :: "detection list \<Rightarrow> nat \<Rightarrow> callback \<Rightarrow> call \<times> js_error option" where
  "try_callback detections index callback =
     (case callback detections of
        Inr u \<Rightarrow> ((index, detections, Inr u), None)
      | Inl error \<Rightarrow>
          (case read_message error of
             Inr m \<Rightarrow> ((index, detections, Inl error), None)
           | Inl e \<Rightarrow> ((index, detections, Inl error), Some e)))"

text \<open>\<open>notifyDetections\<close>: the deliveries made, and the error that escaped, if any.\<close>

definition notifyDetections :: "callback list \<Rightarrow> detection list \<Rightarrow> call list \<times> js_error option" where
  "notifyDetections callbacks detections = forEach (try_callback detections) 0 callbacks"

section \<open>Lifecycle of \<open>AnimalDetectionService\<close>\<close>

record response =
  status :: int
  data :: "byte list"

text \<open>The camera as the code sees it: \<open>axios.get(url)\<close> resolves or rejects.\<close>

type_synonym http = "string \<Rightarrow> js_error + response"

record start_result =
  success :: bool
  message :: string

record settings =
  new_cameraUrl :: "string option"
  new_detectionInterval :: "int option"

definition stopDetection :: "'a service_scheme \<Rightarrow> start_result \<times> 'a service_scheme" where
  "stopDetection s =
     (if \<not> isRunning s then (\<lparr>success = False, message = ''Detection not running''\<rparr>, s)
      else (\<lparr>success = True, message = ''Detection stopped successfully''\<rparr>,
            s\<lparr>isRunning := False, intervalId := None\<rparr>))"

definition testCameraConnection :: "http \<Rightarrow> string \<Rightarrow> js_error + bool" where
  "testCameraConnection get url =
     (case get url of
        Inr r \<Rightarrow> Inr True
      | Inl (Error m) \<Rightarrow> Inl (Error (''Camera connection failed: '' @ m)))"

text \<open>\<open>initializeModel\<close> catches its own errors; \<open>loads\<close> says whether the model file is
  there and loads.\<close>

definition initializeModel :: "bool \<Rightarrow> animal_service \<Rightarrow> animal_service" where
  "initializeModel loads s = (if loads then s\<lparr>model := True\<rparr> else s)"

text \<open>\<open>setInterval(callback, delay)\<close>: a delay below 1 or above \<open>2^31 - 1\<close> becomes 1.\<close>

definition setInterval_delay :: "int \<Rightarrow> int" where
  "setInterval_delay d = (if d < 1 \<or> d > 2147483647 then 1 else d)"

text \<open>
  \<open>startDetection\<close> is asynchronous.  Up to its first \<open>await\<close> it runs at once: it
  either returns that detection is already running or sets \<open>isRunning\<close>.  The rest (model,
  camera probe, timer) runs when the awaited operations have settled.
\<close>

definition startDetection_animal_begin :: "animal_service \<Rightarrow> start_result option \<times> animal_service" where
  "startDetection_animal_begin s =
     (if isRunning s then (Some \<lparr>success = False, message = ''Detection already running''\<rparr>, s)
      else (None, s\<lparr>isRunning := True\<rparr>))"

definition startDetection_animal_resume ::
  "http \<Rightarrow> bool \<Rightarrow> animal_service \<Rightarrow> start_result \<times> animal_service" where
  "startDetection_animal_resume get loads s1 =
     (let s2 = (if \<not> model s1 then initializeModel loads s1 else s1)
      in case testCameraConnection get (cameraUrl s2) of
           Inl (Error m) \<Rightarrow>
             (\<lparr>success = False, message = ''Camera connection failed: '' @ m\<rparr>, s2)
         | Inr ok \<Rightarrow>
             (\<lparr>success = True, message = ''Real detection started successfully''\<rparr>,
              s2\<lparr>intervalId := Some (setInterval_delay (detectionInterval s2))\<rparr>))"

text \<open>A call that is awaited, with nothing else happening before it settles.\<close>

definition startDetection_animal ::
  "http \<Rightarrow> bool \<Rightarrow> animal_service \<Rightarrow> start_result \<times> animal_service" where
  "startDetection_animal get loads s =
     (case startDetection_animal_begin s of
        (Some r, s') \<Rightarrow> (r, s')
      | (None, s1) \<Rightarrow> startDetection_animal_resume get loads s1)"

text \<open>\<open>if (settings.cameraUrl)\<close>, \<open>if (settings.detectionInterval)\<close>: an absent field,
  the empty string and zero are falsy.\<close>

definition truthy_string :: "string option \<Rightarrow> bool" where
  "truthy_string v = (case v of None \<Rightarrow> False | Some u \<Rightarrow> u \<noteq> [])"

definition truthy_number :: "int option \<Rightarrow> bool" where
  "truthy_number v = (case v of None \<Rightarrow> False | Some n \<Rightarrow> n \<noteq> 0)"

text \<open>
  \<open>updateSettings\<close> calls \<open>this.startDetection()\<close> without awaiting it: it returns when
  that call has reached its first \<open>await\<close>.  The result is the state at that moment and
  whether a start is left pending.
\<close>

definition updateSettings_animal :: "settings \<Rightarrow> animal_service \<Rightarrow> animal_service \<times> bool" where
  "updateSettings_animal st s =
     (let s1 = (if truthy_string (new_cameraUrl st) then s\<lparr>cameraUrl := the (new_cameraUrl st)\<rparr> else s)
      in if truthy_number (new_detectionInterval st)
         then (let s2 = s1\<lparr>detectionInterval := the (new_detectionInterval st)\<rparr>
               in if isRunning s2
                  then (let (r, s3) = startDetection_animal_begin (snd (stopDetection s2))
                        in (s3, r = None))
                  else (s2, False))
         else (s1, False))"

definition AnimalDetectionService_new :: "string \<Rightarrow> animal_service" where
  "AnimalDetectionService_new url =
     \<lparr>isRunning = False, intervalId = None, cameraUrl = url, detectionInterval = 2000,
      detectionCallbacks = [], model = False, inputSize = 640, confidenceThreshold = 0.5,
      nmsThreshold = 0.4\<rparr>"

subsection \<open>The fallback of \<open>AnimalDetectionService\<close> without a model\<close>

record box_randoms =
  rnd_x :: real
  rnd_y :: real
  rnd_w :: real
  rnd_h :: real

record channel_stats =
  ch_mean :: real
  ch_stdev :: real

text \<open>
  \<open>enhancedImageAnalysis\<close>: the image library gives the statistics of the channels or
  rejects the image; reading the first channel of an image without channels throws, and
  the \<open>catch\<close> returns no detection.
\<close>

definition enhancedImageAnalysis ::
  "js_error + channel_stats list \<Rightarrow> real \<Rightarrow> box_randoms \<Rightarrow> int \<Rightarrow> detection list" where
  "enhancedImageAnalysis library rnd_conf rnd stamp =
     (case library of
        Inl e \<Rightarrow> []
      | Inr channels \<Rightarrow>
          (case channels of
             [] \<Rightarrow> []
           | c0 # rest \<Rightarrow>
               (let hasVariance = list_ex (\<lambda>channel. ch_stdev channel > 30) channels;
                    avgBrightness = ch_mean c0;
                    isWellLit = (avgBrightness > 50 \<and> avgBrightness < 200)
                in if hasVariance \<and> isWellLit
                   then [\<lparr>cls = ''animal'',
                          confidence = 0.6 + rnd_conf * 0.2,
                          bbox = \<lparr>box_x = 0.2 + rnd_x rnd * 0.4, box_y = 0.2 + rnd_y rnd * 0.4,
                                   box_width = 0.2 + rnd_w rnd * 0.2,
                                   box_height = 0.2 + rnd_h rnd * 0.2\<rparr>,
                          timestamp = stamp\<rparr>]
                   else [])))"

section \<open>Heuristic analysis (\<open>RealAnimalDetectionService\<close>)\<close>

record real_service = service +
  lastFrameData :: "byte list option"
  motionThreshold :: real
  confidenceThreshold_r :: real

text \<open>
  The results of the four analyses.  Each has a field \<open>score\<close> in the source; a score
  of \<open>None\<close> is NaN.  A result built by a \<open>catch\<close> branch has the score only, and the
  flags it lacks read as false.
\<close>

record motion_result =
  detected :: bool
  motion_score :: "real option"

record shapes_result =
  shapes_score :: "real option"
  hasComplexShapes :: bool

record colors_result =
  colors_score :: "real option"
  isEarthyTone :: bool

record textures_result =
  textures_score :: "real option"

record analysis =
  motion :: motion_result
  shapes :: shapes_result
  colors :: colors_result
  textures :: textures_result

text \<open>
  The pixel loop of \<open>detectMotion\<close> over the two raw buffers, with \<open>totalDiff\<close> and
  \<open>significantChanges\<close>.  Past the end of \<open>previous\<close> the difference is NaN, which
  poisons the total and is not greater than the threshold.
\<close>

fun diff_loop :: "byte list \<Rightarrow> byte list \<Rightarrow> int option \<times> nat \<Rightarrow> int option \<times> nat" where
  "diff_loop [] previous acc = acc"
| "diff_loop (c # current) [] (totalDiff, significantChanges) =
     diff_loop current [] (None, significantChanges)"
| "diff_loop (c # current) (p # previous) (totalDiff, significantChanges) =
     (let diff = \<bar>uint c - uint p\<bar>
      in diff_loop current previous
           (map_option (\<lambda>t. t + diff) totalDiff,
            if diff > 30 then significantChanges + 1 else significantChanges))"

text \<open>\<open>motionScore\<close>; on an empty buffer both quotients are \<open>0 / 0\<close>.\<close>

definition motionScore :: "byte list \<Rightarrow> byte list \<Rightarrow> real option" where
  "motionScore current previous =
     (let (totalDiff, significantChanges) = diff_loop current previous (Some 0, 0)
      in if length current = 0 then None
         else (case totalDiff of
                 None \<Rightarrow> None
               | Some t \<Rightarrow>
                   (let avgDiff = real_of_int t / real (length current);
                        changePercentage = real significantChanges / real (length current)
                    in Some (min 1 ((changePercentage * 10 + avgDiff / 255) / 2)))))"

text \<open>
  \<open>detectMotion\<close>.  \<open>to_gray\<close> is the image library's
  \<open>grayscale().resize(320, 240).raw().toBuffer()\<close>, which can reject its input.
\<close>

definition detectMotion ::
  "(byte list \<Rightarrow> js_error + byte list) \<Rightarrow> real_service \<Rightarrow> byte list \<Rightarrow> motion_result" where
  "detectMotion to_gray s currentBuffer =
     (case lastFrameData s of
        None \<Rightarrow> \<lparr>detected = False, motion_score = Some 0\<rparr>
      | Some lastFrame \<Rightarrow>
          (case to_gray currentBuffer of
             Inl e \<Rightarrow> \<lparr>detected = False, motion_score = Some 0\<rparr>
           | Inr current \<Rightarrow>
               (case to_gray lastFrame of
                  Inl e \<Rightarrow> \<lparr>detected = False, motion_score = Some 0\<rparr>
                | Inr previous \<Rightarrow>
                    (let m = motionScore current previous
                     in \<lparr>detected = (case m of None \<Rightarrow> False | Some v \<Rightarrow> v > motionThreshold s),
                         motion_score = m\<rparr>))))"

text \<open>\<open>score || 0\<close>: NaN and zero are falsy.\<close>

definition or_zero :: "real option \<Rightarrow> real" where
  "or_zero v = (case v of None \<Rightarrow> 0 | Some r \<Rightarrow> r)"

record combined =
  combined_confidence :: real
  animalType :: string
  combined_bbox :: bbox

definition combineAnalysisResults :: "box_randoms \<Rightarrow> analysis \<Rightarrow> combined" where
  "combineAnalysisResults rnd a =
     (let combinedScore =
            or_zero (motion_score (motion a)) * 0.4 +
            or_zero (shapes_score (shapes a)) * 0.25 +
            or_zero (colors_score (colors a)) * 0.2 +
            or_zero (textures_score (textures a)) * 0.15;
          animalType0 = ''animal'';
          animalType1 =
            (if isEarthyTone (colors a) \<and>
                (case motion_score (motion a) of None \<Rightarrow> False | Some v \<Rightarrow> v > 0.5)
             then ''large_mammal'' else animalType0);
          animalType2 =
            (if hasComplexShapes (shapes a) \<and> isEarthyTone (colors a)
             then ''elephant'' else animalType1)
      in \<lparr>combined_confidence = combinedScore,
          animalType = animalType2,
          combined_bbox = \<lparr>box_x = 0.2 + rnd_x rnd * 0.4, box_y = 0.2 + rnd_y rnd * 0.4,
                            box_width = 0.2 + rnd_w rnd * 0.3, box_height = 0.2 + rnd_h rnd * 0.3\<rparr>\<rparr>)"

text \<open>
  What the image library and the three analyses that are not modelled further give for
  an image: \<open>metadata\<close> can reject the image; \<open>analyzeShapes\<close>,
  \<open>analyzeColorPatterns\<close> and \<open>analyzeTextures\<close> catch their own errors.
\<close>

record vision =
  metadata :: "byte list \<Rightarrow> js_error + int"
  to_gray_small :: "byte list \<Rightarrow> js_error + byte list"
  analyzeShapes :: "byte list \<Rightarrow> shapes_result"
  analyzeColorPatterns :: "byte list \<Rightarrow> colors_result"
  analyzeTextures :: "byte list \<Rightarrow> textures_result"

definition analyzeImageForAnimals ::
  "vision \<Rightarrow> box_randoms \<Rightarrow> int \<Rightarrow> real_service \<Rightarrow> byte list \<Rightarrow> detection list \<times> real_service" where
  "analyzeImageForAnimals v rnd stamp s imageBuffer =
     (case metadata v imageBuffer of
        Inl e \<Rightarrow> ([], s)
      | Inr w \<Rightarrow>
          (let motionDetected = detectMotion (to_gray_small v) s imageBuffer;
               shapeAnalysis = analyzeShapes v imageBuffer;
               colorAnalysis = analyzeColorPatterns v imageBuffer;
               textureAnalysis = analyzeTextures v imageBuffer;
               combinedScore = combineAnalysisResults rnd
                 \<lparr>motion = motionDetected, shapes = shapeAnalysis,
                  colors = colorAnalysis, textures = textureAnalysis\<rparr>;
               detections =
                 (if combined_confidence combinedScore > confidenceThreshold_r s
                  then [\<lparr>cls = animalType combinedScore,
                         confidence = combined_confidence combinedScore,
                         bbox = combined_bbox combinedScore,
                         timestamp = stamp\<rparr>]
                  else [])
           in (detections, s\<lparr>lastFrameData := Some imageBuffer\<rparr>)))"

definition RealAnimalDetectionService_new :: "string \<Rightarrow> real_service" where
  "RealAnimalDetectionService_new url =
     \<lparr>isRunning = False, intervalId = None, cameraUrl = url, detectionInterval = 3000,
      detectionCallbacks = [], lastFrameData = None, motionThreshold = 0.15,
      confidenceThreshold_r = 0.6\<rparr>"

section \<open>The route-wired service (\<open>SimpleRealDetection\<close>)\<close>

record simple_service = service +
  frameCount :: nat
  lastDetection :: "int option"
  lastDetectionTime :: int
  detectionCooldown :: int

definition SimpleRealDetection_new :: "string \<Rightarrow> simple_service" where
  "SimpleRealDetection_new url =
     \<lparr>isRunning = False, intervalId = None, cameraUrl = url, detectionInterval = 3000,
      detectionCallbacks = [], frameCount = 0, lastDetection = None, lastDetectionTime = 0,
      detectionCooldown = 10000\<rparr>"

definition startDetection :: "http \<Rightarrow> simple_service \<Rightarrow> start_result \<times> simple_service" where
  "startDetection get s =
     (if isRunning s then (\<lparr>success = False, message = ''Detection already running''\<rparr>, s)
      else (let s1 = s\<lparr>isRunning := True\<rparr>
            in case get (cameraUrl s1) of
                 Inl (Error m) \<Rightarrow>
                   (\<lparr>success = False, message = ''Camera connection failed: '' @ m\<rparr>,
                    s1\<lparr>isRunning := False\<rparr>)
               | Inr testResponse \<Rightarrow>
                   (\<lparr>success = True, message = ''Simple real detection started successfully''\<rparr>,
                    s1\<lparr>intervalId := Some (setInterval_delay (detectionInterval s1))\<rparr>)))"

definition updateSettings :: "settings \<Rightarrow> simple_service \<Rightarrow> simple_service" where
  "updateSettings st s =
     (let s1 = (if truthy_string (new_cameraUrl st) then s\<lparr>cameraUrl := the (new_cameraUrl st)\<rparr> else s)
      in if truthy_number (new_detectionInterval st)
         then s1\<lparr>detectionInterval := the (new_detectionInterval st)\<rparr>
         else s1)"

definition setCameraUrl :: "string \<Rightarrow> simple_service \<Rightarrow> simple_service" where
  "setCameraUrl url s = s\<lparr>cameraUrl := url\<rparr>"

definition onDetection :: "callback \<Rightarrow> simple_service \<Rightarrow> simple_service" where
  "onDetection callback s = s\<lparr>detectionCallbacks := detectionCallbacks s @ [callback]\<rparr>"

subsection \<open>Fetching a frame\<close>

definition cameraUrls :: "string \<Rightarrow> string list" where
  "cameraUrls base =
     [base @ ''/shot.jpg'', base @ ''/snapshot.jpg'', base @ ''/image.jpg'',
      base @ ''/capture.jpg'', base]"

text \<open>
  The loop over the candidates: the URLs requested, in order, and the response, if any.
  A request that resolves ends the loop (\<open>break\<close>); one that rejects goes on to the next.
\<close>

fun tryUrls :: "http \<Rightarrow> string list \<Rightarrow> string list \<times> response option" where
  "tryUrls get [] = ([], None)"
| "tryUrls get (url # urls) =
     (case get url of
        Inr r \<Rightarrow> ([url], Some r)
      | Inl e \<Rightarrow> (let (tried, r) = tryUrls get urls in (url # tried, r)))"

definition fetchFrame :: "http \<Rightarrow> string \<Rightarrow> js_error + response" where
  "fetchFrame get base =
     (case snd (tryUrls get (cameraUrls base)) of
        None \<Rightarrow> Inl (Error ''Could not get image from any camera endpoint'')
      | Some r \<Rightarrow> Inr r)"

subsection \<open>Analysing a frame\<close>

text \<open>What the image library reports: \<open>metadata.width\<close> and the mean and standard
  deviation of the first channel.\<close>

record image_stats =
  img_width :: int
  mean :: real
  stdev :: real

record image_analysis =
  hasSignificantContent :: bool
  analysis_confidence :: real
  brightness :: "real option"

definition performImageAnalysis :: "js_error + image_stats \<Rightarrow> real \<Rightarrow> image_analysis" where
  "performImageAnalysis library rnd =
     (case library of
        Inl e \<Rightarrow> \<lparr>hasSignificantContent = False, analysis_confidence = 0, brightness = None\<rparr>
      | Inr st \<Rightarrow>
          (let avgBrightness = mean st;
               variance = stdev st;
               hasGoodLighting = (avgBrightness > 10 \<and> avgBrightness < 240);
               hasVariance = (variance > 15);
               c0 = 0.3;
               c1 = (if hasGoodLighting \<and> avgBrightness > 50 then c0 + 0.3 else c0);
               c2 = (if hasVariance \<and> variance > 30 then c1 + 0.3 else c1);
               c3 = (if img_width st > 320 then c2 + 0.1 else c2);
               c4 = (if avgBrightness < 20 \<or> avgBrightness > 200 then c3 - 0.4 else c3);
               c5 = c4 + (rnd - 0.5) * 0.1;
               c6 = max 0.1 (min 0.95 c5)
           in \<lparr>hasSignificantContent = (hasGoodLighting \<and> hasVariance),
               analysis_confidence = c6,
               brightness = Some avgBrightness\<rparr>))"

text \<open>What one tick reads from outside: the camera, the image library, the clock (read
  once per tick in the model) and the random draws.\<close>

record frame_env =
  http_get :: http
  image_stats_of :: "byte list \<Rightarrow> js_error + image_stats"
  now :: int
  rnd_confidence :: real
  rnd_box :: box_randoms

definition analyzeFrame :: "frame_env \<Rightarrow> simple_service \<Rightarrow> detection list \<times> simple_service" where
  "analyzeFrame env s =
     (case fetchFrame (http_get env) (cameraUrl s) of
        Inl e \<Rightarrow> ([], s)
      | Inr response \<Rightarrow>
          if length (data response) < 1000 then ([], s)
          else (let a = performImageAnalysis (image_stats_of env (data response)) (rnd_confidence env);
                    timeSinceLastDetection = now env - lastDetectionTime s
                in if hasSignificantContent a \<and>
                      analysis_confidence a > 0.75 \<and>
                      (case brightness a of None \<Rightarrow> False | Some b \<Rightarrow> b > 50) \<and>
                      timeSinceLastDetection > detectionCooldown s
                   then ([\<lparr>cls = ''elephant'',
                           confidence = analysis_confidence a,
                           bbox = \<lparr>box_x = 0.25 + rnd_x (rnd_box env) * 0.3,
                                    box_y = 0.25 + rnd_y (rnd_box env) * 0.3,
                                    box_width = 0.2 + rnd_w (rnd_box env) * 0.25,
                                    box_height = 0.2 + rnd_h (rnd_box env) * 0.25\<rparr>,
                           timestamp = now env\<rparr>],
                         s\<lparr>lastDetectionTime := now env\<rparr>)
                   else ([], s)))"

subsection \<open>Ticks and traces\<close>

text \<open>A publication: when it was made, what was published, and the deliveries.\<close>

record publication =
  pub_time :: int
  pub_detections :: "detection list"
  pub_calls :: "call list"

text \<open>The timer callback set up by \<open>startDetection\<close>.  An error that escapes
  \<open>notifyDetections\<close> is caught by the callback, after the deliveries made so far and
  before \<open>lastDetection\<close> is set.\<close>

definition tick :: "frame_env \<Rightarrow> simple_service \<Rightarrow> simple_service \<times> publication list" where
  "tick env s =
     (let s1 = s\<lparr>frameCount := frameCount s + 1\<rparr>;
          (detections, s2) = analyzeFrame env s1
      in if length detections > 0
         then (let (calls, escaped) = notifyDetections (detectionCallbacks s2) detections;
                   s3 = (case escaped of
                           None \<Rightarrow> s2\<lparr>lastDetection := Some (now env)\<rparr>
                         | Some e \<Rightarrow> s2)
               in (s3, [\<lparr>pub_time = now env, pub_detections = detections, pub_calls = calls\<rparr>]))
         else (s2, []))"

text \<open>
  What can happen to the service: the calls of its control surface, and the timer
  firing.  A trace is a list of such events; \<open>run\<close> gives the final state and the
  publications in the order they were made.  The timer may fire in any state of the
  trace, which includes a tick that was still under way when the service was stopped.
\<close>

datatype event =
    Start http
  | Stop
  | UpdateSettings settings
  | SetCameraUrl string
  | OnDetection callback
  | Tick frame_env

fun step :: "event \<Rightarrow> simple_service \<Rightarrow> simple_service \<times> publication list" where
  "step (Start get) s = (snd (startDetection get s), [])"
| "step Stop s = (snd (stopDetection s), [])"
| "step (UpdateSettings st) s = (updateSettings st s, [])"
| "step (SetCameraUrl url) s = (setCameraUrl url s, [])"
| "step (OnDetection callback) s = (onDetection callback s, [])"
| "step (Tick env) s = tick env s"

fun run :: "event list \<Rightarrow> simple_service \<Rightarrow> simple_service \<times> publication list" where
  "run [] s = (s, [])"
| "run (e # es) s =
     (let (s1, ps1) = step e s;
          (s2, ps2) = run es s1
      in (s2, ps1 @ ps2))"

section \<open>Storing settings\<close>

text \<open>What every \<open>updateSettings\<close> does before anything else: it stores the fields that
  are truthy and leaves the others as they are.  The statements about updates are
  written against it.\<close>

definition store_settings :: "settings \<Rightarrow> 'a service_scheme \<Rightarrow> 'a service_scheme" where
  "store_settings st s =
     (let s1 = (if truthy_string (new_cameraUrl st) then s\<lparr>cameraUrl := the (new_cameraUrl st)\<rparr> else s)
      in if truthy_number (new_detectionInterval st)
         then s1\<lparr>detectionInterval := the (new_detectionInterval st)\<rparr> else s1)"

section \<open>Concrete inputs\<close>











text \<open>Subscribers: one that returns, one that throws an \<open>Error\<close>, one that throws
  \<open>null\<close>.\<close>

definition cb_ok :: callback where
  "cb_ok = (\<lambda>detections. Inr ())"

definition cb_error :: callback where
  "cb_error = (\<lambda>detections. Inl (ErrorObject ''subscriber failed''))"

definition cb_null :: callback where
  "cb_null = (\<lambda>detections. Inl NullValue)"

text \<open>Cameras: one that answers every request with a frame of 1000 bytes, one that
  refuses every connection, and one that serves the base URL only.\<close>

definition camera_up :: http where
  "camera_up = (\<lambda>url. Inr \<lparr>status = 200, data = replicate 1000 0\<rparr>)"

definition camera_down :: http where
  "camera_down = (\<lambda>url. Inl (Error ''connect ECONNREFUSED''))"

definition camera_base_only :: http where
  "camera_base_only =
     (\<lambda>url. if url = ''http://camera:8080'' then Inr \<lparr>status = 200, data = replicate 1000 0\<rparr>
            else Inl (Error ''Request failed with status code 404''))"

text \<open>A tick at time \<open>t\<close> whose frame passes every test of the analysis, and a trace of
  three such ticks 5 and 6 seconds apart.\<close>

definition env_at :: "int \<Rightarrow> frame_env" where
  "env_at t =
     \<lparr>http_get = camera_up,
      image_stats_of = (\<lambda>buffer. Inr \<lparr>img_width = 640, mean = 100, stdev = 40\<rparr>),
      now = t, rnd_confidence = 0.5,
      rnd_box = \<lparr>rnd_x = 0.5, rnd_y = 0.5, rnd_w = 0.5, rnd_h = 0.5\<rparr>\<rparr>"

definition detection_at :: "int \<Rightarrow> detection" where
  "detection_at t =
     \<lparr>cls = ''elephant'', confidence = 0.95,
      bbox = \<lparr>box_x = 0.4, box_y = 0.4, box_width = 0.325, box_height = 0.325\<rparr>,
      timestamp = t\<rparr>"

definition simple0 :: simple_service where
  "simple0 = SimpleRealDetection_new ''http://camera:8080''"

definition trace3 :: "event list" where
  "trace3 = [Start camera_up, Tick (env_at 20000), Tick (env_at 25000), Tick (env_at 31000)]"

text \<open>Services that have been started, and two updates.\<close>

definition animal0 :: animal_service where
  "animal0 = AnimalDetectionService_new ''http://camera:8080''"

definition simple_running :: simple_service where
  "simple_running = snd (startDetection camera_up simple0)"

definition animal_running :: animal_service where
  "animal_running = snd (startDetection_animal camera_up False animal0)"

definition interval_5000 :: settings where
  "interval_5000 = \<lparr>new_cameraUrl = None, new_detectionInterval = Some 5000\<rparr>"

definition url_only :: settings where
  "url_only = \<lparr>new_cameraUrl = Some ''http://other:8080'', new_detectionInterval = None\<rparr>"

text \<open>The heuristic service with a dark previous frame, an image library that hands the
  bytes through and reports the highest shape, colour and texture scores, and random
  draws near the upper end for the horizontal position and the width.\<close>

definition vision_ex :: vision where
  "vision_ex =
     \<lparr>metadata = (\<lambda>buffer. Inr 640),
      to_gray_small = (\<lambda>buffer. Inr buffer),
      analyzeShapes = (\<lambda>buffer. \<lparr>shapes_score = Some 1, hasComplexShapes = True\<rparr>),
      analyzeColorPatterns = (\<lambda>buffer. \<lparr>colors_score = Some 1, isEarthyTone = True\<rparr>),
      analyzeTextures = (\<lambda>buffer. \<lparr>textures_score = Some 1\<rparr>)\<rparr>"

definition rnd_edge :: box_randoms where
  "rnd_edge = \<lparr>rnd_x = 0.9, rnd_y = 0.5, rnd_w = 0.9, rnd_h = 0.5\<rparr>"

definition real_dark :: real_service where
  "real_dark = (RealAnimalDetectionService_new ''http://camera:8080'')\<lparr>lastFrameData := Some [0, 0]\<rparr>"

definition frame_bright :: "byte list" where
  "frame_bright = [255, 255]"


section \<open>Binary64: proofs\<close>

text \<open>The exponent brackets the number it is taken of.\<close>

lemma powi2_le_D: "(2::real) powi a \<le> 2 powi b \<Longrightarrow> a \<le> b"
proof (rule ccontr)
  assume le: "(2::real) powi a \<le> 2 powi b" and "\<not> a \<le> b"
  then have "b < a" by simp
  then have "(2::real) powi b < 2 powi a" by (intro power_int_strict_increasing) simp_all
  with le show False by simp
qed

lemma bitlen_pos: "0 < n \<Longrightarrow> 0 < bitlen n"
proof (rule ccontr)
  assume n: "0 < n" and "\<not> 0 < bitlen n"
  then have "nat (bitlen n) = 0" by simp
  then show False using bitlen_bounds [OF n] n by simp
qed

lemma expo_ge: "- 1022 \<le> expo x"
proof (cases "\<bar>x\<bar> \<ge> 1")
  case True
  then have "0 < \<lfloor>\<bar>x\<bar>\<rfloor>" by linarith
  then have "0 < bitlen \<lfloor>\<bar>x\<bar>\<rfloor>" by (rule bitlen_pos)
  then show ?thesis using True by (simp add: expo_def)
next
  case False
  then show ?thesis by (simp add: expo_def)
qed

lemma expo_upper: "x \<noteq> 0 \<Longrightarrow> \<bar>x\<bar> < 2 powi (expo x + 1)"
proof (cases "\<bar>x\<bar> \<ge> 1")
  case True
  assume "x \<noteq> 0"
  let ?n = "\<lfloor>\<bar>x\<bar>\<rfloor>"
  have n: "0 < ?n" using True by linarith
  have b: "0 < bitlen ?n" using n by (rule bitlen_pos)
  have "?n < 2 ^ nat (bitlen ?n)" using bitlen_bounds [OF n] by simp
  then have "?n + 1 \<le> 2 ^ nat (bitlen ?n)" by simp
  then have "real_of_int (?n + 1) \<le> real_of_int (2 ^ nat (bitlen ?n))" by linarith
  then have "\<bar>x\<bar> < 2 ^ nat (bitlen ?n)" by (simp) linarith
  moreover have "(2::real) powi (expo x + 1) = 2 ^ nat (bitlen ?n)"
    using True b by (simp add: expo_def power_int_def)
  ultimately show ?thesis by simp
next
  case False
  assume nz: "x \<noteq> 0"
  let ?y = "1 / \<bar>x\<bar>"
  let ?c = "\<lceil>?y\<rceil>"
  let ?b = "bitlen (?c - 1)"
  have y: "1 < ?y" using False nz by simp
  have c: "0 < ?c - 1" using y by linarith
  have "2 ^ nat (?b - 1) \<le> ?c - 1" using bitlen_bounds [OF c] by simp
  then have "real_of_int (2 ^ nat (?b - 1)) \<le> real_of_int (?c - 1)" by linarith
  also have "\<dots> < ?y" by linarith
  finally have lt: "2 ^ nat (?b - 1) < ?y" by simp
  have bpos: "0 < ?b" using c by (rule bitlen_pos)
  have "\<bar>x\<bar> * 2 ^ nat (?b - 1) < 1"
    using lt nz by (simp add: field_simps)
  then have "\<bar>x\<bar> < 1 / 2 ^ nat (?b - 1)"
    by (simp add: field_simps)
  also have "1 / 2 ^ nat (?b - 1) = (2::real) powi (- ?b + 1)"
    using bpos by (simp add: power_int_def field_simps) 
  finally have a: "\<bar>x\<bar> < 2 powi (- ?b + 1)" .
  have "(2::real) powi (- ?b + 1) \<le> 2 powi (expo x + 1)"
    using False by (intro power_int_increasing) (simp_all add: expo_def)
  with a show ?thesis by linarith
qed

lemma expo_lower: "x \<noteq> 0 \<Longrightarrow> 2 powi (expo x) \<le> \<bar>x\<bar> \<or> expo x = - 1022"
proof (cases "\<bar>x\<bar> \<ge> 1")
  case True
  let ?n = "\<lfloor>\<bar>x\<bar>\<rfloor>"
  have n: "0 < ?n" using True by linarith
  have b: "0 < bitlen ?n" using n by (rule bitlen_pos)
  have "2 ^ nat (bitlen ?n - 1) \<le> ?n" using bitlen_bounds [OF n] by simp
  then have "real_of_int (2 ^ nat (bitlen ?n - 1)) \<le> \<bar>x\<bar>" by (simp only: le_floor_iff)
  then have "2 ^ nat (bitlen ?n - 1) \<le> \<bar>x\<bar>" by simp
  moreover have "(2::real) powi (expo x) = 2 ^ nat (bitlen ?n - 1)"
    using True b by (simp add: expo_def power_int_def)
  ultimately show ?thesis by simp
next
  case False
  assume nz: "x \<noteq> 0"
  let ?y = "1 / \<bar>x\<bar>"
  let ?c = "\<lceil>?y\<rceil>"
  let ?b = "bitlen (?c - 1)"
  have y: "1 < ?y" using False nz by simp
  have c: "0 < ?c - 1" using y by linarith
  show ?thesis
  proof (cases "- ?b \<ge> - 1022")
    case False
    then show ?thesis using \<open>\<not> 1 \<le> \<bar>x\<bar>\<close> by (simp add: expo_def)
  next
    case True
    then have e: "expo x = - ?b" using \<open>\<not> 1 \<le> \<bar>x\<bar>\<close> by (simp add: expo_def)
    have "?c - 1 < 2 ^ nat ?b" using bitlen_bounds [OF c] by simp
    then have "?c \<le> 2 ^ nat ?b" by simp
    then have "?y \<le> real_of_int (2 ^ nat ?b)" by (simp only: ceiling_le_iff)
    then have "?y \<le> 2 ^ nat ?b" by simp
    then have "1 \<le> \<bar>x\<bar> * 2 ^ nat ?b" using nz by (simp add: field_simps)
    then have "1 / 2 ^ nat ?b \<le> \<bar>x\<bar>" by (simp add: field_simps)
    moreover have bpos: "0 < ?b" using c by (rule bitlen_pos)
    then have "1 / 2 ^ nat ?b = (2::real) powi (- ?b)"
      by (simp add: power_int_def field_simps)
    ultimately show ?thesis using e by simp
  qed
qed


lemma rne_of_int [simp]: "rne (of_int n) = n"
  by (simp add: rne_def)

lemma rne_bounds: "of_int a \<le> y \<Longrightarrow> y \<le> of_int b \<Longrightarrow> a \<le> rne y \<and> rne y \<le> b"
proof -
  assume a: "of_int a \<le> y" and b: "y \<le> of_int b"
  have f: "a \<le> \<lfloor>y\<rfloor>" "\<lfloor>y\<rfloor> \<le> b" using a b by (simp_all add: le_floor_iff floor_le_iff)
  show ?thesis
  proof (cases "y = of_int \<lfloor>y\<rfloor>")
    case True
    then have "rne y = \<lfloor>y\<rfloor>" by (metis rne_of_int)
    then show ?thesis using f by simp
  next
    case False
    then have "of_int \<lfloor>y\<rfloor> < y" by linarith
    then have "\<lfloor>y\<rfloor> + 1 \<le> b" using b by linarith
    moreover have "rne y = \<lfloor>y\<rfloor> \<or> rne y = \<lfloor>y\<rfloor> + 1" by (simp add: rne_def Let_def)
    ultimately show ?thesis using f by auto
  qed
qed

lemma fl_form: "x \<noteq> 0 \<Longrightarrow> fl x = 2 powi (expo x - 52) * of_int (rne (x / 2 powi (expo x - 52)))"
  by (simp add: fl_def Let_def)

lemma fl_mantissa: "x \<noteq> 0 \<Longrightarrow> \<bar>rne (x / 2 powi (expo x - 52))\<bar> \<le> 2 ^ 53"
proof -
  assume nz: "x \<noteq> 0"
  let ?u = "(2::real) powi (expo x - 52)"
  have u: "0 < ?u" by simp
  have "\<bar>x\<bar> < 2 powi (expo x + 1)" using expo_upper [OF nz] .
  also have "(2::real) powi (expo x + 1) = ?u * 2 ^ 53"
    by (simp add: power_int_diff power_int_add)
  finally have "\<bar>x\<bar> / ?u < 2 ^ 53" using u by (simp add: field_simps)
  moreover have "\<bar>x / ?u\<bar> = \<bar>x\<bar> / ?u" by (simp add: abs_divide)
  ultimately have "\<bar>x / ?u\<bar> < 2 ^ 53" by simp
  then have "- (2 ^ 53) \<le> x / ?u" "x / ?u \<le> 2 ^ 53" by linarith+
  then have "of_int (- (2 ^ 53)) \<le> x / ?u" "x / ?u \<le> of_int (2 ^ 53)" by simp_all
  from rne_bounds [OF this] show ?thesis by linarith
qed

text \<open>A multiple of a power of two with a mantissa of at most 53 bits is a double.\<close>

lemma fl_double:
  assumes k: "- 1074 \<le> k" and m: "\<bar>m\<bar> \<le> 2 ^ 53"
  shows "fl (2 powi k * of_int m) = 2 powi k * of_int m"
proof (cases "m = 0")
  case True
  then show ?thesis by (simp add: fl_def)
next
  case False
  let ?x = "2 powi k * real_of_int m"
  let ?e = "expo ?x"
  let ?u = "(2::real) powi (?e - 52)"
  have nz: "?x \<noteq> 0" using False by simp
  have absx: "\<bar>?x\<bar> = 2 powi k * real_of_int \<bar>m\<bar>" by (simp add: abs_mult)
  have "\<exists>n. ?x / ?u = of_int n"
  proof (cases "0 \<le> k - ?e + 52")
    case True
    have "?x / ?u = of_int m * 2 powi (k - ?e + 52)"
      by (simp add: power_int_diff power_int_add field_simps)
    also have "\<dots> = of_int (m * 2 ^ nat (k - ?e + 52))"
      using True by (simp add: power_int_def)
    finally show ?thesis by blast
  next
    case far: False
    from expo_lower [OF nz] have "2 powi ?e \<le> \<bar>?x\<bar>"
      using far k by auto
    also have "\<bar>?x\<bar> \<le> 2 powi k * 2 ^ 53"
    proof -
      have "real_of_int \<bar>m\<bar> \<le> real_of_int (2 ^ 53)" using m by (simp only: of_int_le_iff)
      then have "real_of_int \<bar>m\<bar> \<le> 2 ^ 53" by simp
      then show ?thesis unfolding absx by (intro mult_left_mono) simp_all
    qed
    also have "\<dots> = 2 powi (k + 53)" by (simp add: power_int_add)
    finally have "?e \<le> k + 53" by (rule powi2_le_D)
    then have e: "?e = k + 53" using far by linarith
    have "2 powi (k + 53) \<le> \<bar>?x\<bar>" using \<open>2 powi ?e \<le> \<bar>?x\<bar>\<close> e by simp
    then have "2 powi k * 2 ^ 53 \<le> 2 powi k * real_of_int \<bar>m\<bar>"
      unfolding absx by (simp add: power_int_add)
    then have "(2::real) ^ 53 \<le> real_of_int \<bar>m\<bar>" by simp
    then have "real_of_int (2 ^ 53) \<le> real_of_int \<bar>m\<bar>" by simp
    then have "2 ^ 53 \<le> \<bar>m\<bar>" by (simp only: of_int_le_iff)
    then have "\<bar>m\<bar> = 2 ^ 53" using m by simp
    then have mm: "m = 2 ^ 53 \<or> m = - (2 ^ 53)" by linarith
    have "?x / ?u = of_int m * 2 powi (k - ?e + 52)"
      by (simp add: power_int_diff power_int_add field_simps)
    also have "\<dots> = of_int m / 2" using e by simp
    finally have "?x / ?u = of_int m / 2" .
    then show ?thesis using mm by (auto intro: exI [of _ "2 ^ 52"] exI [of _ "- (2 ^ 52)"])
  qed
  then obtain n where n: "?x / ?u = of_int n" by blast
  have "fl ?x = ?u * of_int (rne (?x / ?u))" using nz by (rule fl_form)
  also have "\<dots> = ?u * (?x / ?u)" by (simp add: n)
  also have "\<dots> = ?x" by simp
  finally show ?thesis .
qed

text \<open>Rounding a double gives it back.\<close>

lemma fl_idem [simp]: "fl (fl x) = fl x"
proof (cases "x = 0")
  case True
  then show ?thesis by (simp add: fl_def)
next
  case False
  have "fl (2 powi (expo x - 52) * of_int (rne (x / 2 powi (expo x - 52))))
          = 2 powi (expo x - 52) * of_int (rne (x / 2 powi (expo x - 52)))"
    using expo_ge [of x] fl_mantissa [OF False] by (intro fl_double) simp_all
  then show ?thesis using False by (simp add: fl_form)
qed

lemma fl_zero [simp]: "fl 0 = 0"
  by (simp add: fl_def)


lemma to_double_zero [simp]: "to_double 0 = Fin 0"
  by (simp add: to_double_def fl_def)

lemma to_double_not_NaN [simp]: "to_double x \<noteq> NaN"
  by (simp add: to_double_def Let_def)







lemma jle_not_NaN: "jle a b \<Longrightarrow> a \<noteq> NaN \<and> b \<noteq> NaN"
  by (cases a; cases b) auto




lemma jmax_same [simp]: "jmax a a = a"
  by (simp add: jmax_def)

lemma jmin_same [simp]: "jmin a a = a"
  by (simp add: jmin_def)

lemma jgt_irrefl [simp]: "\<not> jgt a a"
  by (simp add: jgt_def)



section \<open>IoU and NMS: proofs\<close>

declare suppress_from.simps [simp del] nms_loop.simps [simp del]





text \<open>The two loops compute the suppression on lists.\<close>

lemma suppress_from_eq:
  "suppress_from thr ds i j S =
     S \<union> {k. j \<le> k \<and> k < length ds \<and>
              jgt (calculateIoU (bbox (ds ! i)) (bbox (ds ! k))) (to_double thr)}"
proof (induction thr ds i j S rule: suppress_from.induct)
  case (1 thr ds i j S)
  show ?case
  proof (cases "j < length ds")
    case False
    then show ?thesis by (subst suppress_from.simps) auto
  next
    case True
    have split: "{k. j \<le> k \<and> k < length ds \<and> P k} =
                 (if P j then {j} else {}) \<union> {k. j + 1 \<le> k \<and> k < length ds \<and> P k}" for P
      using True by (auto simp: Suc_le_eq le_less)
    show ?thesis
      using True 1
      by (subst suppress_from.simps, subst split) auto
  qed
qed

lemma nms_loop_eq:
  "nms_loop thr ds i S keep =
     keep @ nms_list thr (map ((!) ds) (filter (\<lambda>k. k \<notin> S) [i..<length ds]))"
proof (induction thr ds i S keep rule: nms_loop.induct)
  case (1 thr ds i S keep)
  show ?case
  proof (cases "i < length ds")
    case False
    then show ?thesis by (subst nms_loop.simps) simp
  next
    case lt: True
    show ?thesis
    proof (cases "i \<in> S")
      case True
      then show ?thesis
        using lt 1(1) by (subst nms_loop.simps) (simp add: upt_conv_Cons)
    next
      case False
      have flt: "filter (\<lambda>k. k \<notin> suppress_from thr ds i (Suc i) S) [Suc i..<length ds] =
                 filter (\<lambda>k. k \<notin> S \<and>
                             \<not> jgt (calculateIoU (bbox (ds ! i)) (bbox (ds ! k))) (to_double thr))
                        [Suc i..<length ds]"
        by (auto simp: suppress_from_eq intro!: filter_cong)
      show ?thesis
        using lt False 1(2)
        by (subst nms_loop.simps) (simp add: upt_conv_Cons flt filter_map comp_def)
    qed
  qed
qed

lemma nms_list_short: "length ds \<le> 1 \<Longrightarrow> nms_list thr ds = ds"
  by (cases ds) auto

lemma sort_short: "length ds \<le> 1 \<Longrightarrow> sort_by_confidence ds = ds"
  by (cases ds) (auto simp: sort_by_confidence_def)

lemma applyNMS_eq: "applyNMS thr ds = nms_list thr (sort_by_confidence ds)"
  by (simp add: applyNMS_def nms_loop_eq map_nth nms_list_short sort_short)

lemma subseq_set: "subseq xs ys \<Longrightarrow> set xs \<subseteq> set ys"
  by (auto elim: list_emb_set)


lemma nms_list_subseq: "subseq (nms_list thr ds) ds"
proof (induction thr ds rule: nms_list.induct)
  case (1 thr)
  then show ?case by simp
next
  case (2 thr d ds)
  let ?rest = "filter (\<lambda>e. \<not> jgt (calculateIoU (bbox d) (bbox e)) (to_double thr)) ds"
  have "subseq ?rest ds" by simp
  with 2 have "subseq (nms_list thr ?rest) ds"
    using subseq_order.order_trans by blast
  then show ?case by simp
qed

















section \<open>Notification: proofs\<close>

text \<open>While no callback throws \<open>null\<close> or \<open>undefined\<close>, every callback is called once, in
  order, and nothing escapes.\<close>

lemma forEach_try_callback:
  assumes "\<forall>cb \<in> set cbs. \<forall>t. cb ds = Inl t \<longrightarrow> \<not> isl (read_message t)"
  shows "forEach (try_callback ds) k cbs =
           (map (\<lambda>(i, cb). (i, ds, cb ds)) (enumerate k cbs), None)"
  using assms
proof (induction cbs arbitrary: k)
  case Nil
  then show ?case by simp
next
  case (Cons cb cbs)
  have "try_callback ds k cb = ((k, ds, cb ds), None)"
    using Cons.prems by (auto simp: try_callback_def split: sum.splits)
  then show ?case
    using Cons.IH [of "Suc k"] Cons.prems by simp
qed

lemma notifyDetections_readable:
  assumes "\<forall>cb \<in> set callbacks. \<forall>t. cb ds = Inl t \<longrightarrow> \<not> isl (read_message t)"
  shows "notifyDetections callbacks ds =
           (map (\<lambda>(i, cb). (i, ds, cb ds)) (enumerate 0 callbacks), None)"
  using assms by (simp add: notifyDetections_def forEach_try_callback)

text \<open>
  C9: \<open>notifyDetections\<close> calls every registered callback once with the detections, and a
  callback that throws is caught on its own: the others are still called and
  \<open>notifyDetections\<close> does not throw.  This holds for a callback that throws an \<open>Error\<close>
  (the second list below), but the handler reads \<open>error.message\<close>, and for a callback that
  throws \<open>null\<close> that read throws a \<open>TypeError\<close> inside the handler: the error leaves
  \<open>notifyDetections\<close> and the callbacks registered after it are not called (the first
  list: the third subscriber gets nothing).
\<close>

theorem notifyDetections_null_escapes:
  "notifyDetections [cb_ok, cb_null, cb_ok] [detection_at 20000] =
     ([(0, [detection_at 20000], Inr ()), (1, [detection_at 20000], Inl NullValue)],
      Some (Error ''TypeError: Cannot read properties of null (reading message)'')) \<and>
   notifyDetections [cb_ok, cb_error, cb_ok] [detection_at 20000] =
     ([(0, [detection_at 20000], Inr ()),
       (1, [detection_at 20000], Inl (ErrorObject ''subscriber failed'')),
       (2, [detection_at 20000], Inr ())],
      None)"
  by (simp add: notifyDetections_def try_callback_def cb_ok_def cb_null_def cb_error_def)

section \<open>Fetching a frame: proofs\<close>

lemma tryUrls_tried:
  "fst (tryUrls get urls) =
     takeWhile (\<lambda>u. isl (get u)) urls @ take 1 (dropWhile (\<lambda>u. isl (get u)) urls)"
  by (induction urls) (auto split: sum.splits prod.splits)

lemma tryUrls_result:
  "(case snd (tryUrls get urls) of None \<Rightarrow> Inl e | Some r \<Rightarrow> Inr r) =
     (case find (\<lambda>u. \<not> isl (get u)) urls of None \<Rightarrow> Inl e | Some u \<Rightarrow> get u)"
  by (induction urls) (auto split: sum.splits prod.splits)

lemma tryUrls_none: "snd (tryUrls get urls) = None \<longleftrightarrow> (\<forall>u \<in> set urls. isl (get u))"
  by (induction urls) (auto split: sum.splits prod.splits)

text \<open>
  C7: the candidates are \<open>base/shot.jpg\<close>, \<open>base/snapshot.jpg\<close>, \<open>base/image.jpg\<close>,
  \<open>base/capture.jpg\<close> and \<open>base\<close>, in this order; the URLs requested are the
  candidates that fail up to the first that succeeds, and that one (nothing after it);
  the result is the response of the first candidate that succeeds; and the fetch fails,
  with the error that no endpoint gave an image, exactly when all five candidates fail.
\<close>

theorem fetchFrame_order:
  "cameraUrls base =
     [base @ ''/shot.jpg'', base @ ''/snapshot.jpg'', base @ ''/image.jpg'',
      base @ ''/capture.jpg'', base] \<and>
   fst (tryUrls get (cameraUrls base)) =
     takeWhile (\<lambda>u. isl (get u)) (cameraUrls base) @
     take 1 (dropWhile (\<lambda>u. isl (get u)) (cameraUrls base)) \<and>
   fetchFrame get base =
     (case find (\<lambda>u. \<not> isl (get u)) (cameraUrls base) of
        None \<Rightarrow> Inl (Error ''Could not get image from any camera endpoint'')
      | Some u \<Rightarrow> get u) \<and>
   (fetchFrame get base = Inl (Error ''Could not get image from any camera endpoint'')
      \<longleftrightarrow> (\<forall>u \<in> set (cameraUrls base). isl (get u))) \<and>
   (isl (fetchFrame get base) \<longleftrightarrow> (\<forall>u \<in> set (cameraUrls base). isl (get u)))"
proof -
  have a: "fetchFrame get base =
     (case find (\<lambda>u. \<not> isl (get u)) (cameraUrls base) of
        None \<Rightarrow> Inl (Error ''Could not get image from any camera endpoint'')
      | Some u \<Rightarrow> get u)"
    unfolding fetchFrame_def by (rule tryUrls_result)
  have b: "fetchFrame get base = Inl (Error ''Could not get image from any camera endpoint'')
             \<longleftrightarrow> (\<forall>u \<in> set (cameraUrls base). isl (get u))"
    using tryUrls_none [of get "cameraUrls base"]
    by (auto simp: fetchFrame_def split: option.splits)
  have c: "isl (fetchFrame get base) \<longleftrightarrow> (\<forall>u \<in> set (cameraUrls base). isl (get u))"
    using tryUrls_none [of get "cameraUrls base"]
    by (auto simp: fetchFrame_def split: option.splits)
  have d: "cameraUrls base =
     [base @ ''/shot.jpg'', base @ ''/snapshot.jpg'', base @ ''/image.jpg'',
      base @ ''/capture.jpg'', base]"
    by (simp add: cameraUrls_def)
  show ?thesis
    using a b c d tryUrls_tried [of get "cameraUrls base"] by blast
qed

theorem fetchFrame_order_witness:
  "list_all (\<lambda>u. isl (camera_down u)) (cameraUrls ''http://camera:8080'') \<and>
   fetchFrame camera_down ''http://camera:8080'' =
     Inl (Error ''Could not get image from any camera endpoint'') \<and>
   \<not> list_all (\<lambda>u. isl (camera_base_only u)) (cameraUrls ''http://camera:8080'') \<and>
   \<not> isl (fetchFrame camera_base_only ''http://camera:8080'')"
proof -
  have h1: "list_all (\<lambda>u. isl (camera_down u)) (cameraUrls ''http://camera:8080'')"
    by (simp add: camera_down_def cameraUrls_def)
  have h2: "\<not> list_all (\<lambda>u. isl (camera_base_only u)) (cameraUrls ''http://camera:8080'')"
    by (simp add: cameraUrls_def camera_base_only_def)
  show ?thesis
    using h1 h2 fetchFrame_order [of "''http://camera:8080''" camera_down]
      fetchFrame_order [of "''http://camera:8080''" camera_base_only]
    unfolding list_all_iff by blast
qed

section \<open>The route-wired service: proofs\<close>

lemma performImageAnalysis_clamp_form:
  "\<exists>c. analysis_confidence (performImageAnalysis (Inr st) r) = max 0.1 (min 0.95 c)"
  unfolding performImageAnalysis_def Let_def
  by (simp only: sum.case image_analysis.select_convs) (rule exI, rule refl)

lemma performImageAnalysis_clamped:
  "0.1 \<le> analysis_confidence (performImageAnalysis (Inr st) r) \<and>
   analysis_confidence (performImageAnalysis (Inr st) r) \<le> 0.95"
proof -
  obtain c where "analysis_confidence (performImageAnalysis (Inr st) r) = max 0.1 (min 0.95 c)"
    using performImageAnalysis_clamp_form by blast
  then show ?thesis by simp
qed

lemma performImageAnalysis_le:
  "analysis_confidence (performImageAnalysis lib r) \<le> 0.95"
proof (cases lib)
  case (Inl e)
  then show ?thesis by (simp add: performImageAnalysis_def)
next
  case (Inr st)
  then show ?thesis using performImageAnalysis_clamped [of st r] by simp
qed

text \<open>\<open>analyzeFrame\<close> either changes nothing or yields one elephant and records the time.\<close>

lemma analyzeFrame_cases:
  "analyzeFrame env s = ([], s) \<or>
   (\<exists>d. analyzeFrame env s = ([d], s\<lparr>lastDetectionTime := now env\<rparr>) \<and>
        cls d = ''elephant'' \<and> 0.75 < confidence d \<and> confidence d \<le> 0.95 \<and>
        now env - lastDetectionTime s > detectionCooldown s)"
  using performImageAnalysis_le
  by (auto simp: analyzeFrame_def Let_def split: sum.splits)

lemma tick_cases:
  "tick env s = (s\<lparr>frameCount := frameCount s + 1\<rparr>, []) \<or>
   (\<exists>d calls s'. tick env s =
        (s', [\<lparr>pub_time = now env, pub_detections = [d], pub_calls = calls\<rparr>]) \<and>
        lastDetectionTime s' = now env \<and> detectionCooldown s' = detectionCooldown s \<and>
        cls d = ''elephant'' \<and> 0.75 < confidence d \<and> confidence d \<le> 0.95 \<and>
        now env - lastDetectionTime s > detectionCooldown s)"
proof -
  let ?s1 = "s\<lparr>frameCount := frameCount s + 1\<rparr>"
  from analyzeFrame_cases [of env ?s1] show ?thesis
  proof
    assume "analyzeFrame env ?s1 = ([], ?s1)"
    then show ?thesis by (simp add: tick_def)
  next
    assume "\<exists>d. analyzeFrame env ?s1 = ([d], ?s1\<lparr>lastDetectionTime := now env\<rparr>) \<and>
        cls d = ''elephant'' \<and> 0.75 < confidence d \<and> confidence d \<le> 0.95 \<and>
        now env - lastDetectionTime ?s1 > detectionCooldown ?s1"
    then obtain d where d: "analyzeFrame env ?s1 = ([d], ?s1\<lparr>lastDetectionTime := now env\<rparr>)"
      "cls d = ''elephant''" "0.75 < confidence d" "confidence d \<le> 0.95"
      "now env - lastDetectionTime s > detectionCooldown s" by auto
    then show ?thesis
      by (auto simp: tick_def Let_def case_prod_unfold split: option.splits)
  qed
qed

text \<open>What one event does to the cooldown state and what it publishes.\<close>

lemma step_cooldown:
  "detectionCooldown (fst (step e s)) = detectionCooldown s \<and>
   ((snd (step e s) = [] \<and> lastDetectionTime (fst (step e s)) = lastDetectionTime s) \<or>
    (\<exists>p. snd (step e s) = [p] \<and> lastDetectionTime (fst (step e s)) = pub_time p \<and>
         pub_time p - lastDetectionTime s > detectionCooldown s \<and>
         (\<forall>d \<in> set (pub_detections p).
            cls d = ''elephant'' \<and> 0.75 < confidence d \<and> confidence d \<le> 0.95)))"
proof (cases e)
  case (Tick env)
  then show ?thesis using tick_cases [of env s] by auto
qed (auto simp: startDetection_def stopDetection_def updateSettings_def setCameraUrl_def
       onDetection_def Let_def split: sum.splits js_error.splits)

lemma run_Cons:
  "run (e # evs) s = (fst (run evs (fst (step e s))), snd (step e s) @ snd (run evs (fst (step e s))))"
  by (simp add: case_prod_unfold Let_def)

declare run.simps(2) [simp del]

lemma run_cooldown:
  assumes "0 \<le> detectionCooldown s"
  shows "detectionCooldown (fst (run evs s)) = detectionCooldown s \<and>
         lastDetectionTime s \<le> lastDetectionTime (fst (run evs s)) \<and>
         (\<forall>p \<in> set (snd (run evs s)). lastDetectionTime s + detectionCooldown s < pub_time p) \<and>
         sorted_wrt (\<lambda>p q. pub_time p + detectionCooldown s < pub_time q) (snd (run evs s))"
  using assms
proof (induction evs arbitrary: s)
  case Nil
  then show ?case by simp
next
  case (Cons e evs)
  let ?s1 = "fst (step e s)"
  have cd: "detectionCooldown ?s1 = detectionCooldown s"
    using step_cooldown [of e s] by simp
  then have IH: "detectionCooldown (fst (run evs ?s1)) = detectionCooldown s"
    "lastDetectionTime ?s1 \<le> lastDetectionTime (fst (run evs ?s1))"
    "\<forall>p \<in> set (snd (run evs ?s1)). lastDetectionTime ?s1 + detectionCooldown s < pub_time p"
    "sorted_wrt (\<lambda>p q. pub_time p + detectionCooldown s < pub_time q) (snd (run evs ?s1))"
    using Cons.IH [of ?s1] Cons.prems by auto
  from step_cooldown [of e s]
  consider "snd (step e s) = []" "lastDetectionTime ?s1 = lastDetectionTime s"
    | p where "snd (step e s) = [p]" "lastDetectionTime ?s1 = pub_time p"
        "pub_time p - lastDetectionTime s > detectionCooldown s"
    by blast
  then show ?case
  proof cases
    case 1
    then show ?thesis using IH by (simp add: run_Cons)
  next
    case 2
    then show ?thesis using IH Cons.prems by (auto simp: run_Cons sorted_wrt_append)
  qed
qed

lemma run_published:
  "\<forall>p \<in> set (snd (run evs s)). \<forall>d \<in> set (pub_detections p).
     cls d = ''elephant'' \<and> 0.75 < confidence d \<and> confidence d \<le> 0.95"
proof (induction evs arbitrary: s)
  case Nil
  then show ?case by simp
next
  case (Cons e evs)
  show ?case
    unfolding run_Cons using step_cooldown [of e s] Cons [of "fst (step e s)"] by auto
qed

text \<open>The trace of three ticks publishes at the first and at the third.\<close>

lemma tick_env_at:
  "lastDetectionTime s = l \<Longrightarrow> detectionCooldown s = 10000 \<Longrightarrow> detectionCallbacks s = [] \<Longrightarrow>
   tick (env_at t) s =
     (if t - l > 10000
      then (s\<lparr>frameCount := frameCount s + 1, lastDetectionTime := t, lastDetection := Some t\<rparr>,
            [\<lparr>pub_time = t, pub_detections = [detection_at t], pub_calls = []\<rparr>])
      else (s\<lparr>frameCount := frameCount s + 1\<rparr>, []))"
  by (simp add: env_at_def camera_up_def tick_def analyzeFrame_def fetchFrame_def cameraUrls_def
      performImageAnalysis_def notifyDetections_def detection_at_def Let_def)

lemma trace3_log:
  "snd (run trace3 simple0) =
     [\<lparr>pub_time = 20000, pub_detections = [detection_at 20000], pub_calls = []\<rparr>,
      \<lparr>pub_time = 31000, pub_detections = [detection_at 31000], pub_calls = []\<rparr>]"
  by (simp add: trace3_def simple0_def SimpleRealDetection_new_def startDetection_def
      camera_up_def tick_env_at run_Cons Let_def)

text \<open>
  C4: in every trace of the route-wired service, a publication made at \<open>t0\<close> is followed
  by no publication at a time \<open>t \<le> t0 + detectionCooldown\<close>: later publications are
  strictly more than the cooldown after earlier ones, whatever the ticks in between
  analyse.  A tick publishes only when \<open>now - lastDetectionTime > detectionCooldown\<close>,
  and \<open>lastDetectionTime\<close> becomes \<open>now\<close> when the tick publishes and stays as it is when
  the tick does not.  (\<open>lastDetectionTime\<close> starts at 0, so the first publication is
  gated in the same way.)
\<close>

theorem cooldown_invariant:
  assumes "0 \<le> detectionCooldown s"
  shows "(\<forall>i j. i < j \<and> j < length (snd (run evs s)) \<longrightarrow>
            pub_time (snd (run evs s) ! i) + detectionCooldown s < pub_time (snd (run evs s) ! j)) \<and>
         (snd (tick env s) \<noteq> [] \<longrightarrow>
            now env - lastDetectionTime s > detectionCooldown s \<and>
            lastDetectionTime (fst (tick env s)) = now env \<and>
            map pub_time (snd (tick env s)) = [now env]) \<and>
         (snd (tick env s) = [] \<longrightarrow>
            lastDetectionTime (fst (tick env s)) = lastDetectionTime s)"
proof -
  have "sorted_wrt (\<lambda>p q. pub_time p + detectionCooldown s < pub_time q) (snd (run evs s))"
    using run_cooldown [OF assms] by blast
  then have a: "\<forall>i j. i < j \<and> j < length (snd (run evs s)) \<longrightarrow>
            pub_time (snd (run evs s) ! i) + detectionCooldown s < pub_time (snd (run evs s) ! j)"
    by (simp add: sorted_wrt_iff_nth_less)
  have b: "(snd (tick env s) \<noteq> [] \<longrightarrow>
            now env - lastDetectionTime s > detectionCooldown s \<and>
            lastDetectionTime (fst (tick env s)) = now env \<and>
            map pub_time (snd (tick env s)) = [now env]) \<and>
         (snd (tick env s) = [] \<longrightarrow>
            lastDetectionTime (fst (tick env s)) = lastDetectionTime s)"
    using tick_cases [of env s] by auto
  show ?thesis using a b by blast
qed

theorem cooldown_invariant_witness:
  "0 \<le> detectionCooldown simple0 \<and>
   ((0::nat) < 1 \<and> 1 < length (snd (run trace3 simple0))) \<and>
   pub_time (snd (run trace3 simple0) ! 0) + detectionCooldown simple0
     < pub_time (snd (run trace3 simple0) ! 1) \<and>
   snd (tick (env_at 20000) simple0) \<noteq> [] \<and>
   lastDetectionTime (fst (tick (env_at 20000) simple0)) = now (env_at 20000) \<and>
   snd (tick (env_at 5000) simple0) = [] \<and>
   lastDetectionTime (fst (tick (env_at 5000) simple0)) = lastDetectionTime simple0"
proof -
  have h0: "0 \<le> detectionCooldown simple0"
    by (simp add: simple0_def SimpleRealDetection_new_def)
  have h1: "(0::nat) < 1 \<and> 1 < length (snd (run trace3 simple0))"
    by (simp add: trace3_log)
  have h2: "snd (tick (env_at 20000) simple0) \<noteq> []"
    using tick_env_at [of simple0 0 20000] by (simp add: simple0_def SimpleRealDetection_new_def)
  have h3: "snd (tick (env_at 5000) simple0) = []"
    using tick_env_at [of simple0 0 5000] by (simp add: simple0_def SimpleRealDetection_new_def)
  show ?thesis
    using h0 h1 h2 h3 cooldown_invariant [OF h0, of trace3 "env_at 20000"]
      cooldown_invariant [OF h0, of trace3 "env_at 5000"]
    by blast
qed

text \<open>
  C10: every detection that the route-wired service publishes, in any trace from any
  state, has class \<open>elephant\<close> and a confidence greater than 0.75 and at most 0.95; so
  has every detection that \<open>analyzeFrame\<close> returns.  The confidence of an analysis that
  could read the image lies between 0.1 and 0.95, and a frame yields a detection only
  with significant content, a confidence above 0.75 and a brightness above 50.
\<close>

theorem published_detections_elephant:
  "(\<forall>p \<in> set (snd (run evs s)). \<forall>d \<in> set (pub_detections p).
      cls d = ''elephant'' \<and> 0.75 < confidence d \<and> confidence d \<le> 0.95) \<and>
   (\<forall>d \<in> set (fst (analyzeFrame env s)).
      cls d = ''elephant'' \<and> 0.75 < confidence d \<and> confidence d \<le> 0.95) \<and>
   (0.1 \<le> analysis_confidence (performImageAnalysis (Inr st) r) \<and>
    analysis_confidence (performImageAnalysis (Inr st) r) \<le> 0.95) \<and>
   (fst (analyzeFrame env s) \<noteq> [] \<longrightarrow>
      (\<exists>response a b. fetchFrame (http_get env) (cameraUrl s) = Inr response \<and>
         a = performImageAnalysis (image_stats_of env (data response)) (rnd_confidence env) \<and>
         hasSignificantContent a \<and> analysis_confidence a > 0.75 \<and>
         brightness a = Some b \<and> b > 50))"
proof -
  have a: "\<forall>d \<in> set (fst (analyzeFrame env s)).
      cls d = ''elephant'' \<and> 0.75 < confidence d \<and> confidence d \<le> 0.95"
    using analyzeFrame_cases [of env s] by auto
  have b: "fst (analyzeFrame env s) \<noteq> [] \<longrightarrow>
      (\<exists>response a b. fetchFrame (http_get env) (cameraUrl s) = Inr response \<and>
         a = performImageAnalysis (image_stats_of env (data response)) (rnd_confidence env) \<and>
         hasSignificantContent a \<and> analysis_confidence a > 0.75 \<and>
         brightness a = Some b \<and> b > 50)"
    by (auto simp: analyzeFrame_def Let_def split: sum.splits option.splits if_splits)
  show ?thesis
    using a b run_published [of evs s] performImageAnalysis_clamped [of st r] by blast
qed

theorem published_detections_elephant_witness:
  "snd (run trace3 simple0) ! 0 \<in> set (snd (run trace3 simple0)) \<and>
   pub_detections (snd (run trace3 simple0) ! 0) ! 0
     \<in> set (pub_detections (snd (run trace3 simple0) ! 0)) \<and>
   cls (pub_detections (snd (run trace3 simple0) ! 0) ! 0) = ''elephant'' \<and>
   0.75 < confidence (pub_detections (snd (run trace3 simple0) ! 0) ! 0) \<and>
   confidence (pub_detections (snd (run trace3 simple0) ! 0) ! 0) \<le> 0.95"
proof -
  have h1: "snd (run trace3 simple0) ! 0 \<in> set (snd (run trace3 simple0))"
    by (simp add: trace3_log)
  have h2: "pub_detections (snd (run trace3 simple0) ! 0) ! 0
              \<in> set (pub_detections (snd (run trace3 simple0) ! 0))"
    by (simp add: trace3_log)
  show ?thesis
    using h1 h2 published_detections_elephant [of trace3 simple0]
    by blast
qed

section \<open>Starting and updating: proofs\<close>

text \<open>The route-wired service: a start while running changes nothing, and a start whose
  probe fails leaves the idle service as it was.\<close>

lemma startDetection_already_running:
  "isRunning s \<Longrightarrow>
     startDetection get s = (\<lparr>success = False, message = ''Detection already running''\<rparr>, s)"
  by (simp add: startDetection_def)

lemma startDetection_probe_fails:
  "\<not> isRunning s \<Longrightarrow> get (cameraUrl s) = Inl e \<Longrightarrow>
     \<not> success (fst (startDetection get s)) \<and> snd (startDetection get s) = s"
  by (cases e) (simp add: startDetection_def)

lemma startDetection_animal_already_running:
  "isRunning s \<Longrightarrow>
     startDetection_animal get loads s =
       (\<lparr>success = False, message = ''Detection already running''\<rparr>, s)"
  by (simp add: startDetection_animal_def startDetection_animal_begin_def)

text \<open>
  C5: a start while running fails and changes nothing, and a start whose camera probe
  fails returns an error and leaves the service idle.  \<open>AnimalDetectionService\<close> breaks
  the second part: it sets \<open>isRunning\<close> before the probe and its handler of the probe's
  failure returns without clearing it.  From the idle service with the camera down,
  \<open>startDetection\<close> reports failure and creates no timer, yet \<open>isRunning\<close> is true
  afterwards, and the next start is refused as already running.
\<close>

theorem startDetection_animal_probe_failure:
  "\<not> isRunning animal0 \<and>
   \<not> success (fst (startDetection_animal camera_down False animal0)) \<and>
   isRunning (snd (startDetection_animal camera_down False animal0)) \<and>
   intervalId (snd (startDetection_animal camera_down False animal0)) = None \<and>
   fst (startDetection_animal camera_up False (snd (startDetection_animal camera_down False animal0)))
     = \<lparr>success = False, message = ''Detection already running''\<rparr>"
  by (simp add: startDetection_animal_def startDetection_animal_begin_def
      startDetection_animal_resume_def animal0_def AnimalDetectionService_new_def
      camera_down_def camera_up_def testCameraConnection_def initializeModel_def)

lemma animal_running_state:
  "animal_running =
     (AnimalDetectionService_new ''http://camera:8080'')\<lparr>isRunning := True, intervalId := Some 2000\<rparr>"
  by (simp add: animal_running_def animal0_def AnimalDetectionService_new_def
      startDetection_animal_def startDetection_animal_begin_def startDetection_animal_resume_def
      camera_up_def testCameraConnection_def initializeModel_def setInterval_delay_def)

text \<open>\<open>SimpleRealDetection.updateSettings\<close> stores the settings and has no restart: the
  running flag and the timer stay as they were.\<close>

lemma updateSettings_stores:
  "updateSettings st s = store_settings st s \<and>
   isRunning (updateSettings st s) = isRunning s \<and>
   intervalId (updateSettings st s) = intervalId s"
  by (simp add: updateSettings_def store_settings_def Let_def)

text \<open>
  C6 (as stated): an update made while running that changes the camera URL or the poll
  interval makes the service stop and start again.  A change of the camera URL alone
  does not: \<open>updateSettings\<close> stores the URL, the timer stays as it is, and no start is
  begun.
\<close>

theorem updateSettings_url_no_restart_counterexample:
  "isRunning animal_running \<and>
   cameraUrl (fst (updateSettings_animal url_only animal_running)) \<noteq> cameraUrl animal_running \<and>
   \<not> snd (updateSettings_animal url_only animal_running) \<and>
   intervalId (fst (updateSettings_animal url_only animal_running)) = Some 2000 \<and>
   fst (updateSettings_animal url_only animal_running)
     \<noteq> snd (startDetection_animal_begin (snd (stopDetection (store_settings url_only animal_running))))"
  by (simp add: animal_running_state AnimalDetectionService_new_def updateSettings_animal_def
      url_only_def truthy_string_def truthy_number_def store_settings_def stopDetection_def
      startDetection_animal_begin_def)

text \<open>
  C6 (amended): in \<open>AnimalDetectionService\<close>, an update made while running that carries a
  truthy \<open>detectionInterval\<close> stores the settings, performs \<open>stopDetection\<close> and calls
  \<open>startDetection\<close> without waiting for it: when \<open>updateSettings\<close> returns, the timer is
  cancelled, \<open>isRunning\<close> is true and the start is pending.  When the pending start then
  resumes on that state (nothing else was called on the service meanwhile) and finds the
  camera reachable, the service is running with a timer whose delay is the new interval,
  or 1 ms when the new interval lies outside \<open>1 .. 2^31 - 1\<close>.  An update
  without a truthy \<open>detectionInterval\<close> (a new \<open>cameraUrl\<close> alone) only stores the
  settings: no stop and no start.
\<close>

theorem updateSettings_amended:
  "(isRunning s \<and> truthy_number (new_detectionInterval st) \<longrightarrow>
      updateSettings_animal st s =
        (snd (startDetection_animal_begin (snd (stopDetection (store_settings st s)))), True) \<and>
      fst (updateSettings_animal st s) =
        (store_settings st s)\<lparr>isRunning := True, intervalId := None\<rparr> \<and>
      (\<not> isl (get (cameraUrl (store_settings st s))) \<longrightarrow>
         isRunning (snd (startDetection_animal_resume get loads (fst (updateSettings_animal st s)))) \<and>
         detectionInterval (snd (startDetection_animal_resume get loads (fst (updateSettings_animal st s))))
           = the (new_detectionInterval st) \<and>
         intervalId (snd (startDetection_animal_resume get loads (fst (updateSettings_animal st s))))
           = Some (setInterval_delay (the (new_detectionInterval st))))) \<and>
   (\<not> truthy_number (new_detectionInterval st) \<longrightarrow>
      updateSettings_animal st s = (store_settings st s, False) \<and>
      isRunning (fst (updateSettings_animal st s)) = isRunning s \<and>
      intervalId (fst (updateSettings_animal st s)) = intervalId s)"
  by (auto simp: updateSettings_animal_def store_settings_def Let_def
      startDetection_animal_begin_def startDetection_animal_resume_def stopDetection_def
      testCameraConnection_def initializeModel_def
      split: sum.splits js_error.splits)

theorem updateSettings_amended_witness:
  "(isRunning animal_running \<and> truthy_number (new_detectionInterval interval_5000)) \<and>
   snd (updateSettings_animal interval_5000 animal_running) \<and>
   intervalId (fst (updateSettings_animal interval_5000 animal_running)) = None \<and>
   \<not> isl (camera_up (cameraUrl (store_settings interval_5000 animal_running))) \<and>
   isRunning (snd (startDetection_animal_resume camera_up False
                     (fst (updateSettings_animal interval_5000 animal_running)))) \<and>
   intervalId (snd (startDetection_animal_resume camera_up False
                      (fst (updateSettings_animal interval_5000 animal_running))))
     = Some (setInterval_delay (the (new_detectionInterval interval_5000))) \<and>
   \<not> truthy_number (new_detectionInterval url_only) \<and>
   updateSettings_animal url_only animal_running = (store_settings url_only animal_running, False)"
proof -
  have h1: "isRunning animal_running \<and> truthy_number (new_detectionInterval interval_5000)"
    by (simp add: animal_running_state interval_5000_def truthy_number_def)
  have h2: "\<not> isl (camera_up (cameraUrl (store_settings interval_5000 animal_running)))"
    by (simp add: camera_up_def)
  have h3: "\<not> truthy_number (new_detectionInterval url_only)"
    by (simp add: url_only_def truthy_number_def)
  have "snd (updateSettings_animal interval_5000 animal_running) \<and>
        intervalId (fst (updateSettings_animal interval_5000 animal_running)) = None"
    by (simp add: animal_running_state AnimalDetectionService_new_def updateSettings_animal_def
        interval_5000_def truthy_string_def truthy_number_def stopDetection_def
        startDetection_animal_begin_def)
  then show ?thesis
    using h1 h2 h3
      updateSettings_amended [of animal_running interval_5000 camera_up False]
      updateSettings_amended [of animal_running url_only camera_up False]
    by blast
qed

section \<open>Heuristic analysis: proofs\<close>

lemma diff_loop_same: "diff_loop g g acc = acc"
  by (induction g arbitrary: acc) (auto simp: Let_def option.map_ident)

lemma motionScore_same: "g \<noteq> [] \<Longrightarrow> motionScore g g = Some 0"
  by (simp add: motionScore_def diff_loop_same)

text \<open>An analysis that gets past the metadata stores the frame it was given.\<close>

lemma analyzeImageForAnimals_stores:
  "metadata v imageBuffer = Inr w \<Longrightarrow>
     lastFrameData (snd (analyzeImageForAnimals v rnd stamp s imageBuffer)) = Some imageBuffer"
  by (simp add: analyzeImageForAnimals_def Let_def)



text \<open>The same frame analysed twice in a row: the second analysis sees no motion.\<close>

lemma same_frame_twice:
  assumes "metadata v frame = Inr w" and "to_gray_small v frame = Inr g" and "g \<noteq> []"
  shows "motion_score
           (detectMotion (to_gray_small v)
              (snd (analyzeImageForAnimals v rnd stamp s frame)) frame) = Some 0"
  using assms analyzeImageForAnimals_stores [OF assms(1), of rnd stamp s]
  by (simp add: detectMotion_def motionScore_same)

section \<open>Bounding boxes: proofs\<close>

text \<open>Post-processing clamps: every box it emits lies in the unit square.  (The input
  size of the service is 640; the division of the model agrees with the source for every
  input size other than 0.)\<close>

lemma set_applyNMS: "set (applyNMS thr ds) \<subseteq> set ds"
proof -
  have "set (nms_list thr (sort_by_confidence ds)) \<subseteq> set (sort_by_confidence ds)"
    using nms_list_subseq by (rule subseq_set)
  then show ?thesis by (simp add: applyNMS_eq sort_by_confidence_def)
qed

lemma decode_anchor_bbox_ok:
  "inputSize s \<noteq> 0 \<Longrightarrow> d \<in> set (decode_anchor s stamp output_data i) \<Longrightarrow> bbox_ok (bbox d)"
  by (auto simp: decode_anchor_def Let_def bbox_ok_def split: option.splits if_splits prod.splits)

lemma postprocessResults_bbox_ok:
  assumes "inputSize s \<noteq> 0" and "d \<in> set (postprocessResults s stamp out)"
  shows "bbox_ok (bbox d)"
proof (cases out)
  case None
  then show ?thesis
    using assms by (simp add: postprocessResults_def)
next
  case (Some output_data)
  then have "d \<in> set (concat (map (decode_anchor s stamp output_data)
                         [0..<nat \<lceil>real (length output_data) / 85\<rceil>]))"
    using assms set_applyNMS [of "nmsThreshold s" "concat (map (decode_anchor s stamp output_data)
                         [0..<nat \<lceil>real (length output_data) / 85\<rceil>])"]
    by (simp add: postprocessResults_def subset_iff)
  then show ?thesis
    using decode_anchor_bbox_ok [OF assms(1)] by auto
qed

text \<open>The fallback of the model-based service and the route-wired service draw their
  boxes inside the unit square.\<close>

lemma enhancedImageAnalysis_bbox_ok:
  assumes "0 \<le> rnd_x rnd" "rnd_x rnd < 1" "0 \<le> rnd_y rnd" "rnd_y rnd < 1"
      and "0 \<le> rnd_w rnd" "rnd_w rnd < 1" "0 \<le> rnd_h rnd" "rnd_h rnd < 1"
      and "d \<in> set (enhancedImageAnalysis library rnd_conf rnd stamp)"
  shows "bbox_ok (bbox d)"
  using assms
  by (auto simp: enhancedImageAnalysis_def Let_def bbox_ok_def
      split: sum.splits list.splits if_splits)


lemma analyzeFrame_bbox_ok:
  assumes "0 \<le> rnd_x (rnd_box env)" "rnd_x (rnd_box env) < 1"
      and "0 \<le> rnd_y (rnd_box env)" "rnd_y (rnd_box env) < 1"
      and "0 \<le> rnd_w (rnd_box env)" "rnd_w (rnd_box env) < 1"
      and "0 \<le> rnd_h (rnd_box env)" "rnd_h (rnd_box env) < 1"
      and "d \<in> set (fst (analyzeFrame env s))"
  shows "bbox_ok (bbox d)"
  using assms
  by (auto simp: analyzeFrame_def Let_def bbox_ok_def split: sum.splits if_splits)

text \<open>
  C1: every box the pipeline emits satisfies \<open>0 \<le> x\<close>, \<open>0 \<le> y\<close>, \<open>x + width \<le> 1\<close>
  and \<open>y + height \<le> 1\<close>.  Post-processing, the fallback without a model and the
  route-wired service keep this (the lemmas above).  The heuristic combination does not:
  it draws \<open>x\<close> from \<open>[0.2, 0.6)\<close> as the fallback does, but \<open>width\<close> from
  \<open>[0.2, 0.5)\<close> where the fallback has \<open>[0.2, 0.4)\<close>, and does not clamp.  With the
  draws 0.9 for both, the detection it emits has \<open>x + width = 1.03\<close>.
\<close>

theorem heuristic_bbox_out_of_bounds:
  "map bbox (fst (analyzeImageForAnimals vision_ex rnd_edge 0 real_dark frame_bright)) =
     [\<lparr>box_x = 0.56, box_y = 0.4, box_width = 0.47, box_height = 0.35\<rparr>] \<and>
   \<not> bbox_ok \<lparr>box_x = 0.56, box_y = 0.4, box_width = 0.47, box_height = 0.35\<rparr>"
  by (simp add: analyzeImageForAnimals_def vision_ex_def rnd_edge_def real_dark_def
      frame_bright_def RealAnimalDetectionService_new_def detectMotion_def motionScore_def
      combineAnalysisResults_def or_zero_def bbox_ok_def Let_def)

end
